theory Spec2Isabelle
  imports Complex_Main
begin

section \<open>JavaScript values\<close>

text \<open>
  The library is dynamically typed: every validator takes an arbitrary JavaScript value.
  The values of the embedding are the primitives, arrays given by their elements, objects
  given by their own enumerable data properties in creation order (with
  \<open>Object.prototype\<close> as prototype), and the built-ins: the functions and objects that
  the engine provides, which a program meets as members inherited from the built-in
  prototypes. A built-in is given by its kind (a function, an array, another object) and
  a name. Numbers are \<open>NaN\<close>, the two infinities, or a finite number (a rational; \<open>-0\<close>
  is not told apart from \<open>0\<close>). Symbols, accessor properties and functions of the caller
  stored in data are not values of the embedding, and the built-in prototypes are taken
  as the engine provides them.
\<close>

datatype jsnum = NaN | PosInfinity | NegInfinity | Finite rat

datatype builtin_kind = BuiltinFunction | BuiltinObject | BuiltinArray

datatype jsval =
    Undefined
  | Null
  | Bool bool
  | Num jsnum
  | Str string
  | Arr "jsval list"
  | Obj "(string \<times> jsval) list"
  | Builtin builtin_kind string

text \<open>
  A raised exception is a value: \<open>Error msg\<close> is \<open>new Error(msg)\<close> thrown by the
  library, \<open>TypeError\<close> is a TypeError raised by the engine itself (reading a property
  of \<open>undefined\<close> or \<open>null\<close>, calling something that is not a function, converting an
  object that has no primitive form); its message is engine-defined and not recorded. A
  computation that may raise returns \<open>exn + 'a\<close>.
\<close>

datatype exn = Error string | TypeError

type_synonym 'a js = "exn + 'a"

text \<open>
  What the data of a value does not determine is asked of the engine, a parameter of the
  embedding:
  \<^item> \<open>Number_toString\<close>: the decimal printing of a finite number;
  \<^item> \<open>sameObject\<close>: the identity of two arrays, objects or built-ins (\<open>===\<close>);
  \<^item> \<open>inherited\<close>: the member that a value finds on its prototype chain under a key
    that is not one of its own properties, if there is one (\<open>constructor\<close>,
    \<open>toString\<close>, \<open>__proto__\<close>, ...);
  \<^item> \<open>Builtin_ToString\<close>: the string form of a built-in, and of an object whose own
    \<open>toString\<close> or \<open>valueOf\<close> is a function;
  \<^item> \<open>Builtin_get\<close>: the property of a built-in under a key;
  \<^item> \<open>Builtin_call\<close>: the outcome of the call \<open>value.name(arguments)\<close> where the
    embedding does not define it: on a built-in, on an object that has a function among
    its own properties, with a built-in as argument of a string method.
\<close>

record host =
  Number_toString :: "rat \<Rightarrow> string"
  sameObject :: "jsval \<Rightarrow> jsval \<Rightarrow> bool"
  inherited :: "jsval \<Rightarrow> string \<Rightarrow> jsval option"
  Builtin_ToString :: "jsval \<Rightarrow> string js"
  Builtin_get :: "jsval \<Rightarrow> string \<Rightarrow> jsval js"
  Builtin_call :: "jsval \<Rightarrow> string \<Rightarrow> jsval list \<Rightarrow> jsval js"

text \<open>\<open>typeof value\<close>, \<open>Array.isArray(value)\<close>, whether a value can be called, and
  the truth value of a value in a condition.\<close>

fun typeof :: "jsval \<Rightarrow> string" where
  "typeof Undefined = ''undefined''"
| "typeof Null = ''object''"
| "typeof (Bool b) = ''boolean''"
| "typeof (Num n) = ''number''"
| "typeof (Str s) = ''string''"
| "typeof (Arr xs) = ''object''"
| "typeof (Obj ps) = ''object''"
| "typeof (Builtin k n) = (if k = BuiltinFunction then ''function'' else ''object'')"

fun Array_isArray :: "jsval \<Rightarrow> bool" where
  "Array_isArray (Arr xs) = True"
| "Array_isArray (Builtin k n) = (k = BuiltinArray)"
| "Array_isArray v = False"

fun callable :: "jsval \<Rightarrow> bool" where
  "callable (Builtin k n) = (k = BuiltinFunction)"
| "callable v = False"

fun ToBoolean :: "jsval \<Rightarrow> bool" where
  "ToBoolean Undefined = False"
| "ToBoolean Null = False"
| "ToBoolean (Bool b) = b"
| "ToBoolean (Num n) = (n \<noteq> NaN \<and> n \<noteq> Finite 0)"
| "ToBoolean (Str s) = (s \<noteq> [])"
| "ToBoolean v = True"

text \<open>
  \<open>String(value)\<close>, also the conversion of a template literal \<open>`${value}`\<close>, and
  \<open>array.join(sep)\<close>, which converts the elements from left to right and prints
  \<open>undefined\<close> and \<open>null\<close> elements as the empty string. An array prints as its
  elements joined by a comma. An object is converted by its \<open>toString\<close>, then by its
  \<open>valueOf\<close>: the inherited \<open>toString\<close> answers \<open>[object Object]\<close>; an own
  \<open>toString\<close> that is not a function is passed over, the inherited \<open>valueOf\<close> answers
  the object itself, which is not a primitive, and an own \<open>valueOf\<close> that is not a
  function is passed over too, and then the conversion raises a TypeError.
\<close>

fun ToString :: "host \<Rightarrow> jsval \<Rightarrow> string js"
  and Array_join :: "host \<Rightarrow> jsval list \<Rightarrow> string \<Rightarrow> string js" where
  "ToString h Undefined = Inr ''undefined''"
| "ToString h Null = Inr ''null''"
| "ToString h (Bool b) = Inr (if b then ''true'' else ''false'')"
| "ToString h (Num NaN) = Inr ''NaN''"
| "ToString h (Num PosInfinity) = Inr ''Infinity''"
| "ToString h (Num NegInfinity) = Inr ''-Infinity''"
| "ToString h (Num (Finite q)) = Inr (Number_toString h q)"
| "ToString h (Str s) = Inr s"
| "ToString h (Arr xs) = Array_join h xs '',''"
| "ToString h (Obj ps) =
     (case map_of ps ''toString'' of
        None \<Rightarrow> Inr ''[object Object]''
      | Some m \<Rightarrow>
          if callable m then Builtin_ToString h (Obj ps)
          else (case map_of ps ''valueOf'' of
                  None \<Rightarrow> Inl TypeError
                | Some m' \<Rightarrow> if callable m' then Builtin_ToString h (Obj ps) else Inl TypeError))"
| "ToString h (Builtin k n) = Builtin_ToString h (Builtin k n)"
| "Array_join h [] sep = Inr []"
| "Array_join h [x] sep = (if x = Undefined \<or> x = Null then Inr [] else ToString h x)"
| "Array_join h (x # y # ys) sep =
     (case (if x = Undefined \<or> x = Null then Inr [] else ToString h x) of
        Inl e \<Rightarrow> Inl e
      | Inr s \<Rightarrow>
          (case Array_join h (y # ys) sep of
             Inl e \<Rightarrow> Inl e
           | Inr t \<Rightarrow> Inr (s @ sep @ t)))"

section \<open>ValidationResult (src/result.js): the contents of a Result\<close>

text \<open>
  A \<open>result\<close> is what a caller reads in one ValidationResult at one moment: \<open>isValid\<close>,
  the elements of \<open>errors\<close>, and \<open>value\<close> (field \<open>val\<close>; a field that was never set
  reads as \<open>undefined\<close>). Each function below gives the contents of the Result that a
  call returns, from the contents of the receiver and of the arguments when the call is
  made. When \<open>fail\<close> is given an array, the errors of the new Result are that very array
  and not a copy: they read as the elements of the argument when \<open>fail\<close> returns, and a
  later \<open>push\<close> into the array through one Result shows in every Result that holds it.
  The section on shared arrays models the Results and their arrays as objects of a store
  and follows such sharing through a sequence of calls. \<open>push(...other.errors)\<close> reads
  all of \<open>other.errors\<close> before it appends, so \<open>merge\<close> leaves in the receiver what is
  stated here also when receiver and argument are the same object or hold the same array.
\<close>

record result =
  isValid :: bool
  errors :: "jsval list"
  val :: jsval

definition ValidationResult :: "bool \<Rightarrow> jsval list \<Rightarrow> result" where
  "ValidationResult v es = \<lparr>isValid = v, errors = es, val = Undefined\<rparr>"

definition ok :: "jsval \<Rightarrow> result" where
  "ok v = (ValidationResult True [])\<lparr>val := v\<rparr>"

text \<open>
  \<open>fail(errors = [])\<close>: the default applies when the argument is \<open>undefined\<close>. The
  one array among the built-ins, \<open>Array.prototype\<close>, has no elements.
\<close>

definition fail :: "jsval \<Rightarrow> result" where
  "fail e =
     (let errs = (if e = Undefined then Arr [] else e);
          errorArray =
            (case errs of
               Arr xs \<Rightarrow> xs
             | Builtin k n \<Rightarrow> if k = BuiltinArray then [] else [errs]
             | _ \<Rightarrow> [errs])
      in ValidationResult False errorArray)"

definition merge :: "result \<Rightarrow> result \<Rightarrow> result" where
  "merge r other =
     (if \<not> isValid other then r\<lparr>isValid := False, errors := errors r @ errors other\<rparr>
      else r)"

text \<open>
  The callback of \<open>map\<close> and \<open>flatMap\<close> is any function of the caller; it may raise,
  and nothing catches what it raises.
\<close>

definition map_result :: "result \<Rightarrow> (jsval \<Rightarrow> jsval js) \<Rightarrow> result js" where
  "map_result r fn =
     (if \<not> isValid r then Inr r
      else case fn (val r) of Inl e \<Rightarrow> Inl e | Inr v \<Rightarrow> Inr (ok v))"

definition flatMap :: "result \<Rightarrow> (jsval \<Rightarrow> result js) \<Rightarrow> result js" where
  "flatMap r fn = (if \<not> isValid r then Inr r else fn (val r))"

text \<open>
  \<open>getOrThrow\<close>: the message is built by \<open>join\<close>, and what \<open>join\<close> raises on an error
  that has no string form leaves \<open>getOrThrow\<close> in place of the Error.
\<close>

definition getOrThrow :: "host \<Rightarrow> result \<Rightarrow> jsval js" where
  "getOrThrow h r =
     (if \<not> isValid r
      then (case Array_join h (errors r) '', '' of
              Inl e \<Rightarrow> Inl e
            | Inr joined \<Rightarrow> Inl (Error (''Validation failed: '' @ joined)))
      else Inr (val r))"

definition getOr :: "result \<Rightarrow> jsval \<Rightarrow> jsval" where
  "getOr r d = (if isValid r then val r else d)"

section \<open>ValidationResult (src/result.js): Results that share arrays\<close>

text \<open>
  Results and arrays are objects: a Result holds a reference to its \<open>errors\<close> array,
  \<open>fail\<close> keeps the array it is given, \<open>addError\<close> and \<open>merge\<close> push into the
  receiver's array in place, and \<open>map\<close> and \<open>flatMap\<close> return the receiver itself on
  a failure. The store holds the arrays and the Results by address. The values in the
  arrays and in \<open>value\<close> are of any type \<open>'e\<close>: these functions do not look into them,
  except that \<open>fail\<close> asks whether its argument is \<open>undefined\<close>, an array, or another
  value, which the three forms of \<open>fail_arg\<close> answer: \<open>NoArgument\<close> is the absent or
  \<open>undefined\<close> argument, \<open>ArrayAt a\<close> is an array, always an object of the store (an
  array literal of the caller is an array made by \<open>new_array\<close>), and \<open>NotArray e\<close> is
  a value \<open>e\<close> that is neither.
\<close>

record 'e Result_obj =
  obj_isValid :: bool
  obj_errors :: nat
  obj_value :: "'e option"

record 'e store =
  arrays :: "nat \<Rightarrow> 'e list"
  results :: "nat \<Rightarrow> 'e Result_obj"
  array_count :: nat
  result_count :: nat

datatype 'e fail_arg = NoArgument | NotArray 'e | ArrayAt nat

definition empty_store :: "'e store" where
  "empty_store =
     \<lparr>arrays = (\<lambda>a. []),
      results = (\<lambda>r. \<lparr>obj_isValid = False, obj_errors = 0, obj_value = None\<rparr>),
      array_count = 0, result_count = 0\<rparr>"

definition new_array :: "'e list \<Rightarrow> 'e store \<Rightarrow> nat \<times> 'e store" where
  "new_array xs s =
     (array_count s,
      s\<lparr>arrays := (arrays s)(array_count s := xs), array_count := Suc (array_count s)\<rparr>)"

definition new_ValidationResult :: "bool \<Rightarrow> nat \<Rightarrow> 'e store \<Rightarrow> nat \<times> 'e store" where
  "new_ValidationResult v a s =
     (result_count s,
      s\<lparr>results := (results s)
           (result_count s := \<lparr>obj_isValid = v, obj_errors = a, obj_value = None\<rparr>),
        result_count := Suc (result_count s)\<rparr>)"

definition ok_st :: "'e \<Rightarrow> 'e store \<Rightarrow> nat \<times> 'e store" where
  "ok_st v s =
     (let (a, s1) = new_array [] s;
          (r, s2) = new_ValidationResult True a s1
      in (r, s2\<lparr>results := (results s2)(r := (results s2 r)\<lparr>obj_value := Some v\<rparr>)\<rparr>))"

definition fail_st :: "'e fail_arg \<Rightarrow> 'e store \<Rightarrow> nat \<times> 'e store" where
  "fail_st arg s =
     (case arg of
        NoArgument \<Rightarrow> (let (a, s1) = new_array [] s in new_ValidationResult False a s1)
      | NotArray e \<Rightarrow> (let (a, s1) = new_array [e] s in new_ValidationResult False a s1)
      | ArrayAt a \<Rightarrow> new_ValidationResult False a s)"

definition addError_st :: "nat \<Rightarrow> 'e \<Rightarrow> 'e store \<Rightarrow> 'e store" where
  "addError_st r e s =
     (let a = obj_errors (results s r);
          s1 = s\<lparr>arrays := (arrays s)(a := arrays s a @ [e])\<rparr>
      in s1\<lparr>results := (results s1)(r := (results s1 r)\<lparr>obj_isValid := False\<rparr>)\<rparr>)"

definition merge_st :: "nat \<Rightarrow> nat \<Rightarrow> 'e store \<Rightarrow> 'e store" where
  "merge_st r other s =
     (if \<not> obj_isValid (results s other)
      then (let s1 = s\<lparr>results := (results s)(r := (results s r)\<lparr>obj_isValid := False\<rparr>)\<rparr>;
                a = obj_errors (results s1 r);
                pushed = arrays s1 (obj_errors (results s1 other))
            in s1\<lparr>arrays := (arrays s1)(a := arrays s1 a @ pushed)\<rparr>)
      else s)"

text \<open>
  A callback is code of the caller: it may itself call the library, so it takes the store
  and returns it with its outcome.
\<close>

definition map_st ::
  "nat \<Rightarrow> ('e option \<Rightarrow> 'e store \<Rightarrow> (exn + 'e) \<times> 'e store) \<Rightarrow> 'e store \<Rightarrow> (exn + nat) \<times> 'e store" where
  "map_st r fn s =
     (if \<not> obj_isValid (results s r) then (Inr r, s)
      else case fn (obj_value (results s r)) s of
             (Inl e, s1) \<Rightarrow> (Inl e, s1)
           | (Inr v, s1) \<Rightarrow> (let (r', s2) = ok_st v s1 in (Inr r', s2)))"

definition flatMap_st ::
  "nat \<Rightarrow> ('e option \<Rightarrow> 'e store \<Rightarrow> (exn + nat) \<times> 'e store) \<Rightarrow> 'e store \<Rightarrow> (exn + nat) \<times> 'e store" where
  "flatMap_st r fn s =
     (if \<not> obj_isValid (results s r) then (Inr r, s) else fn (obj_value (results s r)) s)"

text \<open>
  \<open>fail\<close> is given at least one error: a value that is not \<open>undefined\<close>, or an array
  that is not empty when it is passed.
\<close>

definition given_error :: "'e store \<Rightarrow> 'e fail_arg \<Rightarrow> bool" where
  "given_error s arg =
     (case arg of NoArgument \<Rightarrow> False | NotArray e \<Rightarrow> True | ArrayAt a \<Rightarrow> arrays s a \<noteq> [])"

text \<open>
  The stores that a program reaches from the empty store by creating arrays and by calls
  of \<open>ok\<close>, \<open>fail\<close>, \<open>addError\<close>, \<open>merge\<close>, \<open>map\<close> and \<open>flatMap\<close> on the Results
  of the store, where every \<open>fail\<close> is given at least one error and a callback leaves
  a store of the same kind.
\<close>

inductive reachable :: "'e store \<Rightarrow> bool" where
  r_empty: "reachable empty_store"
| r_array: "reachable s \<Longrightarrow> reachable (snd (new_array xs s))"
| r_ok: "reachable s \<Longrightarrow> reachable (snd (ok_st v s))"
| r_fail: "reachable s \<Longrightarrow> given_error s arg \<Longrightarrow> reachable (snd (fail_st arg s))"
| r_addError: "reachable s \<Longrightarrow> r < result_count s \<Longrightarrow> reachable (addError_st r e s)"
| r_merge: "reachable s \<Longrightarrow> r < result_count s \<Longrightarrow> other < result_count s
     \<Longrightarrow> reachable (merge_st r other s)"
| r_map: "reachable s \<Longrightarrow> r < result_count s
     \<Longrightarrow> (obj_isValid (results s r) \<longrightarrow> reachable (snd (fn (obj_value (results s r)) s)))
     \<Longrightarrow> reachable (snd (map_st r fn s))"
| r_flatMap: "reachable s \<Longrightarrow> r < result_count s
     \<Longrightarrow> (obj_isValid (results s r) \<longrightarrow> reachable (snd (g (obj_value (results s r)) s)))
     \<Longrightarrow> reachable (snd (flatMap_st r g s))"

text \<open>
  What holds of every reachable store: an address that is not in use holds no elements,
  the errors of a Result are an array of the store, a Result is valid exactly when its
  errors are empty, and a valid Result shares its errors with no other Result.
\<close>

definition store_inv :: "'e store \<Rightarrow> bool" where
  "store_inv s =
     ((\<forall>a. array_count s \<le> a \<longrightarrow> arrays s a = [])
      \<and> (\<forall>r < result_count s. obj_errors (results s r) < array_count s)
      \<and> (\<forall>r < result_count s.
            obj_isValid (results s r) \<longleftrightarrow> arrays s (obj_errors (results s r)) = [])
      \<and> (\<forall>r < result_count s. \<forall>r' < result_count s.
            r \<noteq> r' \<longrightarrow> obj_isValid (results s r) \<longrightarrow>
            obj_errors (results s r) \<noteq> obj_errors (results s r')))"

text \<open>
  The contents of the Result at an address, as a caller reads them in a store whose
  values are JavaScript values.
\<close>

definition contents :: "jsval store \<Rightarrow> nat \<Rightarrow> result" where
  "contents s r =
     \<lparr>isValid = obj_isValid (results s r),
      errors = arrays s (obj_errors (results s r)),
      val = (case obj_value (results s r) of None \<Rightarrow> Undefined | Some v \<Rightarrow> v)\<rparr>"

text \<open>
  Three programs. \<open>fail()\<close> and \<open>fail([])\<close> on the empty store. Then
  \<open>r = ok(1); f = fail(r.errors); f.addError('x')\<close>, where \<open>f\<close> holds the array
  of \<open>r\<close>. Then \<open>r = ok('v'); f = fail('e1'); r.merge(f); g = fail(f.errors);
  g.addError('e2')\<close>, where every \<open>fail\<close> is given an error.
\<close>

definition store_fail_absent :: "jsval store" where
  "store_fail_absent = snd (fail_st NoArgument empty_store)"

definition store_fail_empty :: "jsval store" where
  "store_fail_empty = snd (fail_st (ArrayAt 0) (snd (new_array [] empty_store)))"

definition store_shared_valid :: "jsval store" where
  "store_shared_valid =
     addError_st 1 (Str ''x'')
       (snd (fail_st (ArrayAt 0) (snd (ok_st (Num (Finite 1)) empty_store))))"

definition store_example :: "jsval store" where
  "store_example =
     addError_st 2 (Str ''e2'')
       (snd (fail_st (ArrayAt 1)
          (merge_st 0 1
             (snd (fail_st (NotArray (Str ''e1'')) (snd (ok_st (Str ''v'') empty_store)))))))"

section \<open>Property keys and property access\<close>

text \<open>
  A property key is a string. A key is an array index when it is the canonical decimal
  numeral of an integer below \<open>2^32 - 1\<close>: only digits, no leading zero unless it is
  \<open>0\<close> itself.
\<close>

definition is_digit :: "char \<Rightarrow> bool" where
  "is_digit c = (c \<in> set ''0123456789'')"

definition digit_val :: "char \<Rightarrow> nat" where
  "digit_val c = of_char c - 48"

definition nat_of_digits :: "string \<Rightarrow> nat" where
  "nat_of_digits s = foldl (\<lambda>n c. 10 * n + digit_val c) 0 s"

definition array_index :: "string \<Rightarrow> nat option" where
  "array_index k =
     (if k \<noteq> [] \<and> list_all is_digit k \<and> (k = ''0'' \<or> hd k \<noteq> CHR ''0'')
         \<and> nat_of_digits k < 4294967295
      then Some (nat_of_digits k) else None)"

text \<open>
  \<open>Object.entries(o)\<close> lists the own enumerable string-keyed properties of \<open>o\<close>: first
  the keys that are array indices, in ascending numeric order, then all other keys in the
  order in which they were created.
\<close>

definition Object_entries :: "(string \<times> 'a) list \<Rightarrow> (string \<times> 'a) list" where
  "Object_entries ps =
     sort_key (\<lambda>p. the (array_index (fst p))) (filter (\<lambda>p. array_index (fst p) \<noteq> None) ps)
     @ filter (\<lambda>p. array_index (fst p) = None) ps"

text \<open>
  \<open>value[k]\<close>. Reading a property of \<open>undefined\<close> or \<open>null\<close> raises a TypeError. An
  object has its own properties, an array and a string their elements and \<open>length\<close>; a
  key that is not an own property is looked up on the prototype chain, and reads as
  \<open>undefined\<close> when nothing is found there.
\<close>

definition lookup_inherited :: "host \<Rightarrow> jsval \<Rightarrow> string \<Rightarrow> jsval" where
  "lookup_inherited h v k = (case inherited h v k of Some m \<Rightarrow> m | None \<Rightarrow> Undefined)"

fun getProp :: "host \<Rightarrow> jsval \<Rightarrow> string \<Rightarrow> jsval js" where
  "getProp h Undefined k = Inl TypeError"
| "getProp h Null k = Inl TypeError"
| "getProp h (Bool b) k = Inr (lookup_inherited h (Bool b) k)"
| "getProp h (Num n) k = Inr (lookup_inherited h (Num n) k)"
| "getProp h (Str s) k =
     Inr (case array_index k of
            Some i \<Rightarrow> if i < length s then Str [s ! i] else lookup_inherited h (Str s) k
          | None \<Rightarrow> if k = ''length'' then Num (Finite (of_nat (length s)))
                    else lookup_inherited h (Str s) k)"
| "getProp h (Arr xs) k =
     Inr (case array_index k of
            Some i \<Rightarrow> if i < length xs then xs ! i else lookup_inherited h (Arr xs) k
          | None \<Rightarrow> if k = ''length'' then Num (Finite (of_nat (length xs)))
                    else lookup_inherited h (Arr xs) k)"
| "getProp h (Obj ps) k =
     Inr (case map_of ps k of Some v \<Rightarrow> v | None \<Rightarrow> lookup_inherited h (Obj ps) k)"
| "getProp h (Builtin b n) k = Builtin_get h (Builtin b n) k"

section \<open>Field validators (src/field-validators.js)\<close>

text \<open>
  The table \<open>PATTERNS\<close> is imported from \<open>patterns.js\<close>; a validator that uses one of
  its regular expressions takes that expression's \<open>test\<close> as its first argument. The
  test is applied to a string. Only a string has the type \<open>string\<close>, and only a number
  the type \<open>number\<close>.
\<close>

type_synonym validator = "jsval \<Rightarrow> result js"

definition isUUID :: "(string \<Rightarrow> bool) \<Rightarrow> validator" where
  "isUUID UUID_test v =
     (case v of
        Str s \<Rightarrow> if \<not> UUID_test s then Inr (fail (Str ''Value is not a valid UUID''))
                 else Inr (ok v)
      | _ \<Rightarrow> Inr (fail (Str ''Value must be a string'')))"

definition isEmail :: "(string \<Rightarrow> bool) \<Rightarrow> validator" where
  "isEmail EMAIL_test v =
     (case v of
        Str s \<Rightarrow> if \<not> EMAIL_test s then Inr (fail (Str ''Value is not a valid email address''))
                 else Inr (ok v)
      | _ \<Rightarrow> Inr (fail (Str ''Value must be a string'')))"

text \<open>
  \<open>fieldName = 'Value'\<close>: the default applies when the argument is \<open>undefined\<close>. The
  template literal is evaluated on the failing branch only; it raises when \<open>fieldName\<close>
  has no string form.
\<close>

definition isRequired :: "host \<Rightarrow> jsval \<Rightarrow> jsval \<Rightarrow> result js" where
  "isRequired h v fieldName =
     (let name = (if fieldName = Undefined then Str ''Value'' else fieldName)
      in if v = Null \<or> v = Undefined \<or> v = Str []
         then (case ToString h name of
                 Inl e \<Rightarrow> Inl e
               | Inr s \<Rightarrow> Inr (fail (Str (s @ '' is required''))))
         else Inr (ok v))"

definition isString :: validator where
  "isString v =
     (if typeof v \<noteq> ''string'' then Inr (fail (Str ''Value must be a string''))
      else Inr (ok v))"

text \<open>
  \<open>isNaN\<close> is reached only when \<open>typeof value\<close> is \<open>number\<close>, where it holds of
  \<open>NaN\<close> alone.
\<close>

definition isNumber :: validator where
  "isNumber v =
     (case v of
        Num n \<Rightarrow> if n = NaN then Inr (fail (Str ''Value must be a number'')) else Inr (ok v)
      | _ \<Rightarrow> Inr (fail (Str ''Value must be a number'')))"

definition isBoolean :: validator where
  "isBoolean v =
     (if typeof v \<noteq> ''boolean'' then Inr (fail (Str ''Value must be a boolean''))
      else Inr (ok v))"

definition isArray :: validator where
  "isArray v =
     (if \<not> Array_isArray v then Inr (fail (Str ''Value must be an array''))
      else Inr (ok v))"

definition isObject :: validator where
  "isObject v =
     (if v = Null \<or> typeof v \<noteq> ''object'' \<or> Array_isArray v
      then Inr (fail (Str ''Value must be an object''))
      else Inr (ok v))"

definition isURL :: "(string \<Rightarrow> bool) \<Rightarrow> validator" where
  "isURL URL_test v =
     (case v of
        Str s \<Rightarrow> if \<not> URL_test s then Inr (fail (Str ''Value is not a valid URL''))
                 else Inr (ok v)
      | _ \<Rightarrow> Inr (fail (Str ''Value must be a string'')))"

definition isIdentifier :: "(string \<Rightarrow> bool) \<Rightarrow> validator" where
  "isIdentifier IDENTIFIER_test v =
     (case v of
        Str s \<Rightarrow> if \<not> IDENTIFIER_test s then Inr (fail (Str ''Value is not a valid identifier''))
                 else Inr (ok v)
      | _ \<Rightarrow> Inr (fail (Str ''Value must be a string'')))"

text \<open>
  \<open>allowedValues.includes(value)\<close>, and \<open>allowedValues.join(', ')\<close> when the value is
  not included. On an array \<open>includes\<close> compares by SameValueZero: primitives by value
  (\<open>NaN\<close> equals itself), arrays, objects and built-ins by identity. On a string it is
  the substring test against the string form of \<open>value\<close>, and a string has no \<open>join\<close>
  to call. On \<open>undefined\<close> and \<open>null\<close> the property read raises. Any other value has
  the \<open>includes\<close> that the property read finds: calling what is not a function raises
  a TypeError, and the call of a function is the engine's.
\<close>

fun is_reference :: "jsval \<Rightarrow> bool" where
  "is_reference (Arr xs) = True"
| "is_reference (Obj ps) = True"
| "is_reference (Builtin k n) = True"
| "is_reference v = False"

definition sameValueZero :: "host \<Rightarrow> jsval \<Rightarrow> jsval \<Rightarrow> bool" where
  "sameValueZero h x y = (x = y \<and> (is_reference x \<longrightarrow> sameObject h x y))"

definition Array_includes :: "host \<Rightarrow> jsval list \<Rightarrow> jsval \<Rightarrow> bool" where
  "Array_includes h xs v = list_ex (\<lambda>x. sameValueZero h x v) xs"

fun String_includes :: "string \<Rightarrow> string \<Rightarrow> bool" where
  "String_includes [] t = (t = [])"
| "String_includes (c # s) t = (take (length t) (c # s) = t \<or> String_includes s t)"

definition Builtin_isOneOf :: "host \<Rightarrow> jsval \<Rightarrow> jsval \<Rightarrow> result js" where
  "Builtin_isOneOf h v allowedValues =
     (case Builtin_call h allowedValues ''includes'' [v] of
        Inl e \<Rightarrow> Inl e
      | Inr found \<Rightarrow>
          if \<not> ToBoolean found
          then (case Builtin_call h allowedValues ''join'' [Str '', ''] of
                  Inl e \<Rightarrow> Inl e
                | Inr joined \<Rightarrow>
                    (case ToString h joined of
                       Inl e \<Rightarrow> Inl e
                     | Inr s \<Rightarrow> Inr (fail (Str (''Value must be one of: '' @ s)))))
          else Inr (ok v))"

definition isOneOf :: "host \<Rightarrow> jsval \<Rightarrow> jsval \<Rightarrow> result js" where
  "isOneOf h v allowedValues =
     (case allowedValues of
        Undefined \<Rightarrow> Inl TypeError
      | Null \<Rightarrow> Inl TypeError
      | Arr xs \<Rightarrow>
          if \<not> Array_includes h xs v
          then (case Array_join h xs '', '' of
                  Inl e \<Rightarrow> Inl e
                | Inr s \<Rightarrow> Inr (fail (Str (''Value must be one of: '' @ s))))
          else Inr (ok v)
      | Str s \<Rightarrow>
          (case v of
             Builtin k n \<Rightarrow> Builtin_isOneOf h v allowedValues
           | _ \<Rightarrow>
               (case ToString h v of
                  Inl e \<Rightarrow> Inl e
                | Inr t \<Rightarrow> if \<not> String_includes s t then Inl TypeError else Inr (ok v)))
      | _ \<Rightarrow>
          (case getProp h allowedValues ''includes'' of
             Inl e \<Rightarrow> Inl e
           | Inr m \<Rightarrow> if callable m then Builtin_isOneOf h v allowedValues else Inl TypeError))"

definition isPort :: "host \<Rightarrow> (string \<Rightarrow> bool) \<Rightarrow> validator" where
  "isPort h PORT_test v =
     (case ToString h v of
        Inl e \<Rightarrow> Inl e
      | Inr stringValue \<Rightarrow>
          if \<not> PORT_test stringValue
          then Inr (fail (Str ''Value is not a valid port number (0-65535)''))
          else Inr (ok v))"

section \<open>Schema validator (src/schema-validators.js)\<close>

text \<open>
  The rules are an object whose own properties are validator functions: the list of
  these properties in creation order. A validator is a function that returns a Result or
  raises; \<open>validate\<close> has no handler, so what a validator raises leaves \<open>validate\<close>.
\<close>

type_synonym ruleset = "(string \<times> validator) list"

record SchemaValidator =
  rules :: ruleset

text \<open>\<open>constructor(rules = {})\<close>: \<open>None\<close> is the absent argument.\<close>

definition new_SchemaValidator :: "ruleset option \<Rightarrow> SchemaValidator" where
  "new_SchemaValidator rs = \<lparr>rules = (case rs of None \<Rightarrow> [] | Some r \<Rightarrow> r)\<rparr>"

text \<open>The \<open>for\<close> loop of \<open>validate\<close> over the entries, with the array \<open>errors\<close> so far.\<close>

fun validate_loop :: "host \<Rightarrow> ruleset \<Rightarrow> jsval \<Rightarrow> jsval list \<Rightarrow> jsval list js" where
  "validate_loop h [] data errs = Inr errs"
| "validate_loop h ((fieldName, vd) # rest) data errs =
     (case getProp h data fieldName of
        Inl e \<Rightarrow> Inl e
      | Inr v \<Rightarrow>
          (case vd v of
             Inl e \<Rightarrow> Inl e
           | Inr res \<Rightarrow>
               validate_loop h rest data
                 (if \<not> isValid res
                  then errs @ [Obj [(''field'', Str fieldName), (''errors'', Arr (errors res))]]
                  else errs)))"

definition validate :: "host \<Rightarrow> SchemaValidator \<Rightarrow> jsval \<Rightarrow> result js" where
  "validate h sv data =
     (case validate_loop h (Object_entries (rules sv)) data [] of
        Inl e \<Rightarrow> Inl e
      | Inr errs \<Rightarrow> if length errs > 0 then Inr (fail (Arr errs)) else Inr (ok data))"

definition validateSchema :: "host \<Rightarrow> jsval \<Rightarrow> ruleset option \<Rightarrow> result js" where
  "validateSchema h data schema = (let vd = new_SchemaValidator schema in validate h vd data)"

section \<open>Notions of the specification\<close>

text \<open>
  A sequence of strings joined with a separator: the first string, then every later
  string with the separator before it. An element of an array contributes its string
  form when it has one, \<open>undefined\<close> and \<open>null\<close> the empty string.
\<close>

definition join_with :: "string \<Rightarrow> string list \<Rightarrow> string" where
  "join_with sep ss = (case ss of [] \<Rightarrow> [] | s # rest \<Rightarrow> s @ concat (map (\<lambda>t. sep @ t) rest))"

definition join_element :: "host \<Rightarrow> jsval \<Rightarrow> string js" where
  "join_element h x = (if x = Undefined \<or> x = Null then Inr [] else ToString h x)"

text \<open>
  \<open>data[fieldName]\<close> of a data object: the own property; for an absent field the member
  that the object inherits under that name, and \<open>undefined\<close> when there is none. The
  records \<open>{field, errors}\<close> of the failing fields of a sequence of rules, in the order
  of that sequence.
\<close>

definition field_value :: "host \<Rightarrow> (string \<times> jsval) list \<Rightarrow> string \<Rightarrow> jsval" where
  "field_value h props k =
     (case map_of props k of
        Some v \<Rightarrow> v
      | None \<Rightarrow> (case inherited h (Obj props) k of Some m \<Rightarrow> m | None \<Rightarrow> Undefined))"

definition field_record :: "string \<Rightarrow> jsval list \<Rightarrow> jsval" where
  "field_record k es = Obj [(''field'', Str k), (''errors'', Arr es)]"

definition failure_records :: "host \<Rightarrow> ruleset \<Rightarrow> (string \<times> jsval) list \<Rightarrow> jsval list" where
  "failure_records h es props =
     concat (map (\<lambda>(k, vd). case vd (field_value h props k) of
                               Inr res \<Rightarrow> if isValid res then [] else [field_record k (errors res)]
                             | Inl e \<Rightarrow> []) es)"

section \<open>A host and a port pattern for the examples\<close>

text \<open>
  The decimal numeral of a natural number, the members that a plain object inherits
  from \<open>Object.prototype\<close> (functions, named as their \<open>name\<close> property names them,
  and the prototype itself under \<open>__proto__\<close>), and a host for the examples. It prints
  a finite number by the numeral of its integer part, which is the engine's printing of
  the integers that the examples use, holds structurally equal arrays and objects to be
  the same object, knows the members that a plain object inherits, and prints a built-in
  function as Node.js does. The examples ask it nothing else: what it answers on the
  properties and calls of built-ins, and on objects that have a function as their own
  \<open>toString\<close>, stands for no engine.
\<close>

function nat_digits :: "nat \<Rightarrow> string" where
  "nat_digits n =
     (if n < 10 then [''0123456789'' ! n]
      else nat_digits (n div 10) @ [''0123456789'' ! (n mod 10)])"
  by pat_completeness auto
termination
  by (relation "measure id") auto

declare nat_digits.simps [simp del]

definition Object_prototype :: "string \<Rightarrow> jsval option" where
  "Object_prototype k =
     (if k = ''constructor'' then Some (Builtin BuiltinFunction ''Object'')
      else if k = ''__proto__'' then Some (Builtin BuiltinObject ''Object.prototype'')
      else if k \<in> set [''toString'', ''toLocaleString'', ''valueOf'', ''hasOwnProperty'',
                        ''isPrototypeOf'', ''propertyIsEnumerable'', ''__defineGetter__'',
                        ''__defineSetter__'', ''__lookupGetter__'', ''__lookupSetter__'']
      then Some (Builtin BuiltinFunction k)
      else None)"

definition example_host :: host where
  "example_host =
     \<lparr>Number_toString =
        (\<lambda>q. if q < 0 then ''-'' @ nat_digits (nat (- \<lfloor>q\<rfloor>)) else nat_digits (nat \<lfloor>q\<rfloor>)),
      sameObject = (=),
      inherited = (\<lambda>v k. case v of Obj ps \<Rightarrow> Object_prototype k | _ \<Rightarrow> None),
      Builtin_ToString =
        (\<lambda>v. case v of
               Builtin k n \<Rightarrow>
                 if k = BuiltinFunction then Inr (''function '' @ n @ ''() { [native code] }'')
                 else if k = BuiltinObject then Inr ''[object Object]''
                 else Inr []
             | _ \<Rightarrow> Inl TypeError),
      Builtin_get = (\<lambda>v k. Inr Undefined),
      Builtin_call = (\<lambda>v name args. Inl TypeError)\<rparr>"

text \<open>
  Modelled from the spec: \<open>PATTERNS.PORT\<close> of \<open>patterns.js\<close>, which is not among the
  sources. The spec says that it matches an integer in \<open>[0, 65535]\<close>: the test holds of
  the decimal numerals of these integers.
\<close>

definition PORT_spec :: "string \<Rightarrow> bool" where
  "PORT_spec s = (s \<noteq> [] \<and> list_all is_digit s \<and> nat_of_digits s \<le> 65535)"

section \<open>Properties of the contents of a Result\<close>

text \<open>What \<open>ok\<close> and \<open>fail\<close> construct, field by field.\<close>

lemma ok_fields: "isValid (ok v) \<and> errors (ok v) = [] \<and> val (ok v) = v"
  by (simp add: ok_def ValidationResult_def)

lemma fail_fields:
  "\<not> isValid (fail e) \<and> val (fail e) = Undefined
   \<and> errors (fail e) =
       (case e of Undefined \<Rightarrow> [] | Arr xs \<Rightarrow> xs
        | Builtin k n \<Rightarrow> if k = BuiltinArray then [] else [e] | _ \<Rightarrow> [e])"
  by (cases e) (simp_all add: fail_def ValidationResult_def)

text \<open>
  C1. On a failing Result, \<open>map\<close> and \<open>flatMap\<close> return the receiver itself, so
  \<open>isValid\<close> is false and \<open>errors\<close> are the receiver's, whatever the callback is. The
  callback is not invoked: the outcome is the same for a callback that raises on every
  argument, which would make the call raise if it were invoked.
\<close>

theorem map_flatMap_failure_short_circuit:
  "\<not> isValid r \<Longrightarrow> map_result r f = Inr r \<and> flatMap r g = Inr r"
  by (simp add: map_result_def flatMap_def)

theorem map_flatMap_failure_short_circuit_witness:
  "\<not> isValid (fail (Str ''failed''))
   \<and> map_result (fail (Str ''failed'')) (\<lambda>x. Inl (Error ''called'')) = Inr (fail (Str ''failed''))
   \<and> flatMap (fail (Str ''failed'')) (\<lambda>x. Inl (Error ''called'')) = Inr (fail (Str ''failed''))"
  using map_flatMap_failure_short_circuit
          [of "fail (Str ''failed'')" "\<lambda>x. Inl (Error ''called'')" "\<lambda>x. Inl (Error ''called'')"]
  by (simp add: fail_fields)

text \<open>
  C2. \<open>r.merge(other)\<close>: when \<open>other\<close> is a failure the receiver becomes a failure
  and its errors are its former errors followed by those of \<open>other\<close>, in order; when
  \<open>other\<close> is a success the receiver is unchanged in every field.
\<close>

theorem merge_spec:
  "(\<not> isValid other \<longrightarrow>
      \<not> isValid (merge r other) \<and> errors (merge r other) = errors r @ errors other)
   \<and> (isValid other \<longrightarrow> merge r other = r)"
  by (simp add: merge_def)

theorem merge_spec_witness:
  "\<not> isValid (fail (Str ''e2''))
   \<and> errors (merge (merge (ok Null) (fail (Str ''e1''))) (fail (Str ''e2''))) = [Str ''e1'', Str ''e2'']
   \<and> isValid (ok (Num (Finite 1)))
   \<and> merge (fail (Str ''e1'')) (ok (Num (Finite 1))) = fail (Str ''e1'')"
  using merge_spec [of "fail (Str ''e2'')" "merge (ok Null) (fail (Str ''e1''))"]
        merge_spec [of "fail (Str ''e1'')" "ok Null"]
        merge_spec [of "ok (Num (Finite 1))" "fail (Str ''e1'')"]
  by (simp add: ok_fields fail_fields)

text \<open>
  \<open>join\<close> of the engine joins the string forms of the elements, when every element
  has one.
\<close>

lemma Array_join_Cons:
  "Array_join h (x # xs) sep =
     (case join_element h x of
        Inl e \<Rightarrow> Inl e
      | Inr s \<Rightarrow>
          if xs = [] then Inr s
          else (case Array_join h xs sep of Inl e \<Rightarrow> Inl e | Inr t \<Rightarrow> Inr (s @ sep @ t)))"
  by (cases xs) (simp_all add: join_element_def split: sum.splits)

lemma Array_join_join_with:
  "map (join_element h) xs = map Inr ss \<Longrightarrow> Array_join h xs sep = Inr (join_with sep ss)"
proof (induction xs arbitrary: ss)
  case Nil
  then show ?case by (simp add: join_with_def)
next
  case (Cons x xs)
  then obtain s rest where ss: "ss = s # rest" and x: "join_element h x = Inr s"
    and rest: "map (join_element h) xs = map Inr rest"
    by (cases ss) auto
  show ?case
  proof (cases "xs = []")
    case True
    with rest x ss show ?thesis by (simp add: join_with_def join_element_def)
  next
    case False
    with rest obtain t rest' where r': "rest = t # rest'" by (cases rest) auto
    from Cons.IH [OF rest] have "Array_join h xs sep = Inr (join_with sep rest)" .
    with x ss False r' show ?thesis
      by (simp add: Array_join_Cons join_with_def del: ToString.simps Array_join.simps)
  qed
qed

lemma join_element_Str: "map (join_element h) (map Str ss) = map Inr ss"
  by (induction ss) (simp_all add: join_element_def)

text \<open>
  C4. \<open>getOrThrow\<close> returns \<open>value\<close> of a success. On a failure whose errors have a
  string form it raises an Error whose message is \<open>Validation failed: \<close> followed by
  these string forms joined with a comma and a space; the string form of an error that is
  a string is the string itself. When \<open>join\<close> raises, on an error that has no string
  form, what it raises leaves \<open>getOrThrow\<close>.
\<close>

theorem getOrThrow_spec:
  "(isValid r \<longrightarrow> getOrThrow h r = Inr (val r))
   \<and> (\<not> isValid r \<and> map (join_element h) (errors r) = map Inr ss \<longrightarrow>
        getOrThrow h r = Inl (Error (''Validation failed: '' @ join_with '', '' ss)))
   \<and> (\<not> isValid r \<and> errors r = map Str ss \<longrightarrow>
        getOrThrow h r = Inl (Error (''Validation failed: '' @ join_with '', '' ss)))
   \<and> (\<not> isValid r \<and> Array_join h (errors r) '', '' = Inl e \<longrightarrow> getOrThrow h r = Inl e)"
proof (intro conjI impI)
  assume "\<not> isValid r \<and> errors r = map Str ss"
  then have "\<not> isValid r" and "map (join_element h) (errors r) = map Inr ss"
    using join_element_Str [of h ss] by auto
  then show "getOrThrow h r = Inl (Error (''Validation failed: '' @ join_with '', '' ss))"
    by (simp add: getOrThrow_def Array_join_join_with)
qed (simp_all add: getOrThrow_def Array_join_join_with)

theorem getOrThrow_spec_witness:
  "isValid (ok (Str ''success'')) \<and> getOrThrow example_host (ok (Str ''success'')) = Inr (Str ''success'')
   \<and> \<not> isValid (fail (Str ''a is required''))
   \<and> errors (fail (Str ''a is required'')) = map Str [''a is required'']
   \<and> getOrThrow example_host (fail (Str ''a is required''))
       = Inl (Error ''Validation failed: a is required'')
   \<and> map (join_element example_host) (errors (fail (Arr [Str ''a'', Null, Num (Finite 7)])))
       = map Inr [''a'', '''', ''7'']
   \<and> getOrThrow example_host (fail (Arr [Str ''a'', Null, Num (Finite 7)]))
       = Inl (Error ''Validation failed: a, , 7'')
   \<and> Array_join example_host (errors (fail (Arr [Obj [(''toString'', Num (Finite 1))]]))) '', ''
       = Inl TypeError
   \<and> getOrThrow example_host (fail (Arr [Obj [(''toString'', Num (Finite 1))]])) = Inl TypeError"
proof -
  have n: "Number_toString example_host 7 = ''7''"
    by (simp add: example_host_def nat_digits.simps)
  show ?thesis
    using getOrThrow_spec [of "ok (Str ''success'')" example_host]
          getOrThrow_spec [of "fail (Str ''a is required'')" example_host "[''a is required'']"]
          getOrThrow_spec [of "fail (Arr [Str ''a'', Null, Num (Finite 7)])" example_host
             "[''a'', '''', ''7'']"]
          getOrThrow_spec [of "fail (Arr [Obj [(''toString'', Num (Finite 1))]])" example_host
             _ TypeError]
    by (simp add: ok_fields fail_fields join_with_def join_element_def n)
qed

section \<open>The invariant of the Results of a store\<close>

lemma inv_empty: "store_inv empty_store"
  by (simp add: store_inv_def empty_store_def)

lemma inv_new_array: "store_inv s \<Longrightarrow> store_inv (snd (new_array xs s))"
  by (auto simp add: store_inv_def new_array_def)

lemma inv_ok: "store_inv s \<Longrightarrow> store_inv (snd (ok_st v s))"
  by (auto simp add: store_inv_def ok_st_def new_array_def new_ValidationResult_def
        less_Suc_eq)

lemma inv_fail: "store_inv s \<Longrightarrow> given_error s arg \<Longrightarrow> store_inv (snd (fail_st arg s))"
proof (cases arg)
  case NoArgument
  assume "given_error s arg"
  with NoArgument show ?thesis by (simp add: given_error_def)
next
  case (NotArray e)
  assume "store_inv s"
  with NotArray show ?thesis
    by (auto simp add: store_inv_def fail_st_def new_array_def new_ValidationResult_def
          less_Suc_eq)
next
  case (ArrayAt a)
  assume i: "store_inv s" and g: "given_error s arg"
  from g ArrayAt have ne: "arrays s a \<noteq> []" by (simp add: given_error_def)
  from i have "\<forall>a. array_count s \<le> a \<longrightarrow> arrays s a = []"
    by (simp add: store_inv_def)
  with ne have lt: "a < array_count s"
    by (meson not_le_imp_less)
  from i ne lt ArrayAt show ?thesis
    by (auto simp add: store_inv_def fail_st_def new_ValidationResult_def less_Suc_eq)
qed

lemma inv_addError:
  "store_inv s \<Longrightarrow> r < result_count s \<Longrightarrow> store_inv (addError_st r e s)"
  unfolding store_inv_def addError_st_def Let_def
  by (simp, metis leD)

lemma inv_merge:
  "store_inv s \<Longrightarrow> r < result_count s \<Longrightarrow> other < result_count s
   \<Longrightarrow> store_inv (merge_st r other s)"
  unfolding store_inv_def merge_st_def Let_def
  by (simp, metis leD)

lemma reachable_inv: "reachable s \<Longrightarrow> store_inv s"
proof (induction rule: reachable.induct)
  case r_empty
  show ?case by (rule inv_empty)
next
  case (r_array s xs)
  then show ?case by (simp add: inv_new_array)
next
  case (r_ok s v)
  then show ?case by (simp add: inv_ok)
next
  case (r_fail s arg)
  then show ?case by (simp add: inv_fail)
next
  case (r_addError s r e)
  then show ?case by (simp add: inv_addError)
next
  case (r_merge s r other)
  then show ?case by (simp add: inv_merge)
next
  case (r_map s r fn)
  show ?case
  proof (cases "obj_isValid (results s r)")
    case False
    with r_map show ?thesis by (simp add: map_st_def)
  next
    case True
    with r_map have i: "store_inv (snd (fn (obj_value (results s r)) s))" by simp
    obtain y s1 where f: "fn (obj_value (results s r)) s = (y, s1)"
      by (cases "fn (obj_value (results s r)) s")
    with i have "store_inv s1" by simp
    with True f show ?thesis
      by (cases y) (simp_all add: map_st_def inv_ok split_def Let_def)
  qed
next
  case (r_flatMap s r g)
  then show ?case by (cases "obj_isValid (results s r)") (simp_all add: flatMap_st_def)
qed

lemma failure_stays:
  "r < result_count s \<Longrightarrow> \<not> obj_isValid (results s r) \<Longrightarrow>
     \<not> obj_isValid (results (snd (ok_st v s)) r)
     \<and> \<not> obj_isValid (results (snd (fail_st arg s)) r)
     \<and> \<not> obj_isValid (results (addError_st r0 e s) r)
     \<and> \<not> obj_isValid (results (merge_st r0 other s) r)"
  by (cases arg)
     (auto simp add: ok_st_def fail_st_def addError_st_def merge_st_def new_array_def
        new_ValidationResult_def Let_def)

text \<open>
  C3, as the code has it. Provided that every \<open>fail\<close> is given at least one error,
  every Result that a program makes by \<open>ok\<close> and \<open>fail\<close> and transforms by
  \<open>addError\<close>, \<open>merge\<close>, \<open>map\<close> and \<open>flatMap\<close>, also when Results share an
  errors array, has \<open>isValid\<close> false exactly when its errors are not empty. And a
  failure stays a failure, with or without that proviso: no call of \<open>ok\<close>, \<open>fail\<close>,
  \<open>addError\<close> or \<open>merge\<close>, on any Result, makes \<open>isValid\<close> of a failing Result
  true, and \<open>map\<close> and \<open>flatMap\<close> on a failing Result return that Result and leave
  the store as it is.
\<close>

theorem result_invariant:
  "(reachable s \<and> r < result_count s \<longrightarrow>
      (\<not> obj_isValid (results s r) \<longleftrightarrow> arrays s (obj_errors (results s r)) \<noteq> []))
   \<and> (r < result_count s \<and> \<not> obj_isValid (results s r) \<longrightarrow>
        \<not> obj_isValid (results (snd (ok_st v s)) r)
        \<and> \<not> obj_isValid (results (snd (fail_st arg s)) r)
        \<and> \<not> obj_isValid (results (addError_st r0 e s) r)
        \<and> \<not> obj_isValid (results (merge_st r0 other s) r)
        \<and> map_st r fn s = (Inr r, s) \<and> flatMap_st r g s = (Inr r, s))"
proof (intro conjI impI)
  assume a: "reachable s \<and> r < result_count s"
  then have "store_inv s" by (simp add: reachable_inv)
  with a show "(\<not> obj_isValid (results s r)) = (arrays s (obj_errors (results s r)) \<noteq> [])"
    by (simp add: store_inv_def)
qed (simp_all add: failure_stays map_st_def flatMap_st_def)

lemma store_example_reachable: "reachable store_example"
  unfolding store_example_def
  by (intro r_addError r_fail r_merge r_ok r_empty)
     (simp_all add: given_error_def ok_st_def fail_st_def merge_st_def new_array_def
        new_ValidationResult_def empty_store_def Let_def)

theorem result_invariant_witness:
  "reachable store_example \<and> (1::nat) < result_count store_example
   \<and> \<not> obj_isValid (results store_example 1)
   \<and> arrays store_example (obj_errors (results store_example 1)) = [Str ''e1'', Str ''e2'']
   \<and> obj_errors (results store_example 2) = obj_errors (results store_example 1)
   \<and> \<not> obj_isValid (results (addError_st 0 (Str ''e3'') store_example) 1)
   \<and> \<not> obj_isValid (results (merge_st 1 0 store_example) 1)
   \<and> map_st 1 (\<lambda>x t. (Inr (Str ''called''), t)) store_example = (Inr 1, store_example)
   \<and> flatMap_st 1 (\<lambda>x t. (Inr 0, t)) store_example = (Inr 1, store_example)"
proof -
  have c: "result_count store_example = 3"
    "\<not> obj_isValid (results store_example 1)"
    "obj_errors (results store_example 1) = 1"
    "obj_errors (results store_example 2) = 1"
    "arrays store_example 1 = [Str ''e1'', Str ''e2'']"
    by (simp_all add: store_example_def addError_st_def ok_st_def fail_st_def merge_st_def
          new_array_def new_ValidationResult_def empty_store_def Let_def)
  show ?thesis
    using result_invariant
            [where s = store_example and r = 1 and ?r0.0 = 0 and e = "Str ''e3''"
               and other = 0 and fn = "\<lambda>x t. (Inr (Str ''called''), t)"
               and g = "\<lambda>x t. (Inr 0, t)"]
          result_invariant [where s = store_example and r = 1 and ?r0.0 = 1 and other = 0]
          store_example_reachable c
    by simp
qed

text \<open>
  C3 as it is stated fails. \<open>fail()\<close> and \<open>fail([])\<close> are failures that have no
  errors. And after \<open>r = ok(1); f = fail(r.errors); f.addError('x')\<close> the Result
  \<open>r\<close> is valid and has an error, since \<open>f\<close> holds the array of \<open>r\<close>.
\<close>

theorem result_invariant_counterexample:
  "\<not> obj_isValid (results store_fail_absent 0)
   \<and> arrays store_fail_absent (obj_errors (results store_fail_absent 0)) = []
   \<and> \<not> obj_isValid (results store_fail_empty 0)
   \<and> arrays store_fail_empty (obj_errors (results store_fail_empty 0)) = []
   \<and> obj_isValid (results store_shared_valid 0)
   \<and> arrays store_shared_valid (obj_errors (results store_shared_valid 0)) = [Str ''x'']"
  by (simp add: store_fail_absent_def store_fail_empty_def store_shared_valid_def
        addError_st_def ok_st_def fail_st_def new_array_def new_ValidationResult_def
        empty_store_def Let_def)

text \<open>
  The contents of the Results of a store are those that the functions on contents state:
  of the Result that \<open>ok\<close> and \<open>fail\<close> return, and of the receiver after \<open>merge\<close>.
\<close>

lemma contents_ok: "contents (snd (ok_st v s)) (fst (ok_st v s)) = ok v"
  by (simp add: contents_def ok_st_def new_array_def new_ValidationResult_def Let_def
        ok_def ValidationResult_def)

lemma contents_fail:
  "contents (snd (fail_st NoArgument s)) (fst (fail_st NoArgument s)) = fail Undefined"
  "\<not> Array_isArray e \<Longrightarrow> e \<noteq> Undefined \<Longrightarrow>
     contents (snd (fail_st (NotArray e) s)) (fst (fail_st (NotArray e) s)) = fail e"
  "contents (snd (fail_st (ArrayAt a) s)) (fst (fail_st (ArrayAt a) s)) = fail (Arr (arrays s a))"
  by (cases e; simp add: contents_def fail_st_def new_array_def new_ValidationResult_def
        Let_def fail_def ValidationResult_def)+

lemma contents_merge:
  "contents (merge_st r other s) r = merge (contents s r) (contents s other)"
  by (simp add: contents_def merge_st_def Let_def merge_def)

section \<open>Properties of the field validators\<close>

text \<open>
  C8. \<open>isRequired\<close> fails exactly on \<open>null\<close>, \<open>undefined\<close> and the empty string,
  with the single message \<open><fieldName> is required\<close>, where \<open>fieldName\<close> is
  \<open>Value\<close> when the argument is absent; on every other value, \<open>0\<close> and \<open>false\<close>
  among them, it is a success that wraps the value it was given. The message is stated
  for a \<open>fieldName\<close> that is a string, for the absent one, and for any other that has a
  string form.
\<close>

theorem isRequired_spec:
  "(v = Null \<or> v = Undefined \<or> v = Str [] \<longrightarrow>
      (\<exists>r. isRequired h v (Str name) = Inr r \<and> \<not> isValid r
           \<and> errors r = [Str (name @ '' is required'')])
      \<and> (\<exists>r. isRequired h v Undefined = Inr r \<and> \<not> isValid r
           \<and> errors r = [Str ''Value is required''])
      \<and> (fieldName \<noteq> Undefined \<and> ToString h fieldName = Inr s \<longrightarrow>
           (\<exists>r. isRequired h v fieldName = Inr r \<and> \<not> isValid r
                \<and> errors r = [Str (s @ '' is required'')])))
   \<and> (\<not> (v = Null \<or> v = Undefined \<or> v = Str []) \<longrightarrow>
      (\<exists>r. isRequired h v fieldName = Inr r \<and> isValid r \<and> val r = v \<and> errors r = []))"
  by (simp add: isRequired_def Let_def ok_fields fail_fields)

theorem isRequired_spec_witness:
  "(\<exists>r. isRequired example_host (Num (Finite 0)) Undefined = Inr r \<and> isValid r
        \<and> val r = Num (Finite 0) \<and> errors r = [])
   \<and> (\<exists>r. isRequired example_host (Bool False) Undefined = Inr r \<and> isValid r
        \<and> val r = Bool False \<and> errors r = [])
   \<and> (\<exists>r. isRequired example_host (Str []) Undefined = Inr r \<and> \<not> isValid r
        \<and> errors r = [Str ''Value is required''])
   \<and> (\<exists>r. isRequired example_host Null (Str ''email'') = Inr r \<and> \<not> isValid r
        \<and> errors r = [Str ''email is required''])
   \<and> (\<exists>r. isRequired example_host Undefined (Num (Finite 7)) = Inr r \<and> \<not> isValid r
        \<and> errors r = [Str ''7 is required''])"
proof -
  have n: "ToString example_host (Num (Finite 7)) = Inr ''7''"
    by (simp add: example_host_def nat_digits.simps)
  show ?thesis
    using isRequired_spec [of "Num (Finite 0)" example_host _ Undefined]
          isRequired_spec [of "Bool False" example_host _ Undefined]
          isRequired_spec [of "Str []" example_host]
          isRequired_spec [of Null example_host "''email''"]
          isRequired_spec [of Undefined example_host _ "Num (Finite 7)" "''7''"] n
    by auto
qed

text \<open>
  C9. \<open>isNumber\<close> is a success wrapping the value it was given exactly when the value
  is of type number and is not \<open>NaN\<close>, so both infinities pass; it is a failure for
  \<open>NaN\<close> and for every value of another type.
\<close>

theorem isNumber_spec:
  "(typeof v = ''number'' \<and> v \<noteq> Num NaN \<longrightarrow>
      (\<exists>r. isNumber v = Inr r \<and> isValid r \<and> val r = v \<and> errors r = []))
   \<and> (\<not> (typeof v = ''number'' \<and> v \<noteq> Num NaN) \<longrightarrow>
        (\<exists>r. isNumber v = Inr r \<and> \<not> isValid r))"
  by (cases v) (auto simp add: isNumber_def fail_fields ok_fields)

theorem isNumber_spec_witness:
  "(\<exists>r. isNumber (Num PosInfinity) = Inr r \<and> isValid r \<and> val r = Num PosInfinity \<and> errors r = [])
   \<and> (\<exists>r. isNumber (Num NegInfinity) = Inr r \<and> isValid r \<and> val r = Num NegInfinity
         \<and> errors r = [])
   \<and> (\<exists>r. isNumber (Num (Finite 42)) = Inr r \<and> isValid r \<and> val r = Num (Finite 42)
         \<and> errors r = [])
   \<and> (\<exists>r. isNumber (Num NaN) = Inr r \<and> \<not> isValid r)
   \<and> (\<exists>r. isNumber (Str ''42'') = Inr r \<and> \<not> isValid r)"
  using isNumber_spec [of "Num PosInfinity"] isNumber_spec [of "Num NegInfinity"]
        isNumber_spec [of "Num (Finite 42)"] isNumber_spec [of "Num NaN"]
        isNumber_spec [of "Str ''42''"]
  by simp

text \<open>
  C10. \<open>isPort\<close> applies the port pattern to the string form of the value. When the
  pattern matches, the Result is a success that wraps the value that was given, not its
  string form; when it does not match, the Result is a failure. A value that has no
  string form makes the conversion, and so \<open>isPort\<close>, raise. This holds for every
  pattern; the example takes the pattern of the spec and the number \<open>8080\<close>.
\<close>

theorem isPort_spec:
  "(ToString h v = Inr s \<and> PORT_test s \<longrightarrow>
      (\<exists>r. isPort h PORT_test v = Inr r \<and> isValid r \<and> val r = v \<and> errors r = []))
   \<and> (ToString h v = Inr s \<and> \<not> PORT_test s \<longrightarrow>
      (\<exists>r. isPort h PORT_test v = Inr r \<and> \<not> isValid r))
   \<and> (ToString h v = Inl e \<longrightarrow> isPort h PORT_test v = Inl e)"
  by (simp add: isPort_def fail_fields ok_fields)

theorem isPort_spec_witness:
  "ToString example_host (Num (Finite 8080)) = Inr ''8080'' \<and> PORT_spec ''8080''
   \<and> (\<exists>r. isPort example_host PORT_spec (Num (Finite 8080)) = Inr r \<and> isValid r
         \<and> val r = Num (Finite 8080) \<and> val r \<noteq> Str ''8080'' \<and> errors r = [])
   \<and> ToString example_host (Num (Finite 70000)) = Inr ''70000'' \<and> \<not> PORT_spec ''70000''
   \<and> (\<exists>r. isPort example_host PORT_spec (Num (Finite 70000)) = Inr r \<and> \<not> isValid r)
   \<and> ToString example_host (Obj [(''toString'', Num (Finite 1))]) = Inl TypeError
   \<and> isPort example_host PORT_spec (Obj [(''toString'', Num (Finite 1))]) = Inl TypeError"
proof -
  have a: "ToString example_host (Num (Finite 8080)) = Inr ''8080''"
    by (simp add: example_host_def nat_digits.simps)
  have b: "ToString example_host (Num (Finite 70000)) = Inr ''70000''"
    by (simp add: example_host_def nat_digits.simps)
  have c: "PORT_spec ''8080''" "\<not> PORT_spec ''70000''"
    by (simp_all add: PORT_spec_def is_digit_def nat_of_digits_def digit_val_def)
  have d: "ToString example_host (Obj [(''toString'', Num (Finite 1))]) = Inl TypeError"
    by simp
  show ?thesis
    using isPort_spec [of example_host "Num (Finite 8080)" "''8080''" PORT_spec]
          isPort_spec [of example_host "Num (Finite 70000)" "''70000''" PORT_spec]
          isPort_spec [of example_host "Obj [(''toString'', Num (Finite 1))]" _ _ TypeError]
          a b c d
    by auto
qed

section \<open>Properties of the schema validator\<close>

text \<open>
  C6. \<open>validateSchema(data, ruleMapping)\<close> returns what \<open>validate(data)\<close> returns on
  a schema validator constructed from \<open>ruleMapping\<close>, also when it raises.
\<close>

theorem validateSchema_is_validate_once:
  "validateSchema h data schema = validate h (new_SchemaValidator schema) data"
  by (simp add: validateSchema_def)

theorem validateSchema_is_validate_once_witness:
  "validateSchema example_host (Obj [(''name'', Str ''Ann'')]) (Some [(''name'', isString)])
     = Inr (ok (Obj [(''name'', Str ''Ann'')]))
   \<and> validate example_host (new_SchemaValidator (Some [(''name'', isString)]))
       (Obj [(''name'', Str ''Ann'')])
     = Inr (ok (Obj [(''name'', Str ''Ann'')]))"
proof -
  have "array_index ''name'' = None"
    by (simp add: array_index_def is_digit_def)
  then have "validate example_host (new_SchemaValidator (Some [(''name'', isString)]))
               (Obj [(''name'', Str ''Ann'')]) = Inr (ok (Obj [(''name'', Str ''Ann'')]))"
    by (simp add: validate_def new_SchemaValidator_def Object_entries_def isString_def ok_fields)
  then show ?thesis
    using validateSchema_is_validate_once
            [of example_host "Obj [(''name'', Str ''Ann'')]" "Some [(''name'', isString)]"]
    by simp
qed

section \<open>What \<open>validate\<close> computes\<close>

lemma set_Object_entries: "set (Object_entries ps) = set ps"
  by (auto simp add: Object_entries_def)

lemma Object_entries_no_index:
  "\<forall>k \<in> fst ` set ps. array_index k = None \<Longrightarrow> Object_entries ps = ps"
proof -
  assume a: "\<forall>k \<in> fst ` set ps. array_index k = None"
  then have "filter (\<lambda>p. array_index (fst p) \<noteq> None) ps = []"
    by (auto simp add: filter_empty_conv)
  moreover from a have "filter (\<lambda>p. array_index (fst p) = None) ps = ps"
    by (auto simp add: filter_id_conv)
  ultimately show ?thesis by (simp add: Object_entries_def)
qed

lemma getProp_Obj: "getProp h (Obj props) k = Inr (field_value h props k)"
  by (simp add: field_value_def lookup_inherited_def split: option.splits)

lemma validate_loop_records:
  "\<forall>(k, vd) \<in> set es. \<exists>res. vd (field_value h props k) = Inr res \<Longrightarrow>
   validate_loop h es (Obj props) errs = Inr (errs @ failure_records h es props)"
proof (induction es arbitrary: errs)
  case Nil
  then show ?case by (simp add: failure_records_def)
next
  case (Cons p es)
  obtain k vd where p: "p = (k, vd)" by (cases p)
  from Cons.prems p obtain res where res: "vd (field_value h props k) = Inr res" by auto
  from Cons.prems
  have rest: "\<forall>(k, vd) \<in> set es. \<exists>res. vd (field_value h props k) = Inr res"
    by simp
  show ?case
    using Cons.IH [OF rest] res p
    by (simp add: getProp_Obj failure_records_def field_record_def [symmetric]
          del: getProp.simps)
qed

lemma failure_records_cong:
  "\<forall>k \<in> fst ` set es. field_value h props k = field_value h props' k \<Longrightarrow>
   failure_records h es props = failure_records h es props'"
  by (induction es) (auto simp add: failure_records_def)

lemma key_name: "array_index ''name'' = None" "array_index ''age'' = None"
  "array_index ''b'' = None" "array_index ''1'' = Some 1"
  "array_index ''constructor'' = None"
  by (simp_all add: array_index_def is_digit_def nat_of_digits_def digit_val_def)

text \<open>
  C5, as the code has it. On a data object, with rules whose validators return a Result
  on the values they are given, \<open>validate\<close> calls the validator of each rule on
  \<open>data[fieldName]\<close>: the own property, and for a field that is absent from \<open>data\<close>
  the member that \<open>data\<close> inherits under that name (\<open>constructor\<close>, \<open>toString\<close>,
  ...), which is \<open>undefined\<close> when there is none. When no field fails it returns a
  success that wraps \<open>data\<close> as it was given; otherwise it returns a failure whose
  errors are the records \<open>{field, errors}\<close> of the failing fields in the order of
  \<open>Object.entries\<close> of the rules. That order is the insertion order of the rules when
  no field name is an array index. The records depend only on what \<open>data\<close> has under
  the names of the rules.
\<close>

theorem validate_spec:
  "((\<forall>(k, vd) \<in> set (rules sv). \<exists>res. vd (field_value h props k) = Inr res) \<longrightarrow>
      (failure_records h (Object_entries (rules sv)) props = [] \<longrightarrow>
         (\<exists>r. validate h sv (Obj props) = Inr r \<and> isValid r \<and> val r = Obj props
              \<and> errors r = []))
      \<and> (failure_records h (Object_entries (rules sv)) props \<noteq> [] \<longrightarrow>
         (\<exists>r. validate h sv (Obj props) = Inr r \<and> \<not> isValid r
              \<and> errors r = failure_records h (Object_entries (rules sv)) props)))
   \<and> ((\<forall>k \<in> fst ` set (rules sv). array_index k = None) \<longrightarrow>
        Object_entries (rules sv) = rules sv)
   \<and> ((\<forall>k \<in> fst ` set (rules sv). field_value h props k = field_value h props' k) \<longrightarrow>
        failure_records h (Object_entries (rules sv)) props
          = failure_records h (Object_entries (rules sv)) props')"
proof (intro conjI impI)
  assume a: "\<forall>(k, vd) \<in> set (rules sv). \<exists>res. vd (field_value h props k) = Inr res"
  then have b: "\<forall>(k, vd) \<in> set (Object_entries (rules sv)).
                  \<exists>res. vd (field_value h props k) = Inr res"
    by (simp add: set_Object_entries)
  have loop: "validate_loop h (Object_entries (rules sv)) (Obj props) []
        = Inr (failure_records h (Object_entries (rules sv)) props)"
    using validate_loop_records [OF b, of "[]"] by simp
  show "\<exists>r. validate h sv (Obj props) = Inr r \<and> isValid r \<and> val r = Obj props \<and> errors r = []"
    if "failure_records h (Object_entries (rules sv)) props = []"
    using that loop by (simp add: validate_def ok_fields)
  show "\<exists>r. validate h sv (Obj props) = Inr r \<and> \<not> isValid r
          \<and> errors r = failure_records h (Object_entries (rules sv)) props"
    if "failure_records h (Object_entries (rules sv)) props \<noteq> []"
    using that loop by (simp add: validate_def fail_fields)
next
  assume "\<forall>k \<in> fst ` set (rules sv). array_index k = None"
  then show "Object_entries (rules sv) = rules sv" by (rule Object_entries_no_index)
next
  assume "\<forall>k \<in> fst ` set (rules sv). field_value h props k = field_value h props' k"
  then show "failure_records h (Object_entries (rules sv)) props
          = failure_records h (Object_entries (rules sv)) props'"
    by (intro failure_records_cong) (simp add: set_Object_entries)
qed

theorem validate_spec_witness:
  "(\<exists>r. validate example_host (new_SchemaValidator (Some [(''name'', isString), (''age'', isNumber)]))
          (Obj [(''name'', Str ''Ann''), (''extra'', Str ''ignored''), (''age'', Num (Finite 30))])
        = Inr r \<and> isValid r
        \<and> val r = Obj [(''name'', Str ''Ann''), (''extra'', Str ''ignored''),
                       (''age'', Num (Finite 30))]
        \<and> errors r = [])
   \<and> (\<exists>r. validate example_host (new_SchemaValidator (Some [(''name'', isString), (''age'', isNumber)]))
             (Obj [(''age'', Str ''x''), (''extra'', Str ''ignored'')]) = Inr r
        \<and> \<not> isValid r
        \<and> errors r = [field_record ''name'' [Str ''Value must be a string''],
                      field_record ''age'' [Str ''Value must be a number'']])
   \<and> field_value example_host [] ''constructor'' = Builtin BuiltinFunction ''Object''
   \<and> (\<exists>r. validate example_host
             (new_SchemaValidator (Some [(''constructor'', \<lambda>v. isRequired example_host v Undefined)]))
             (Obj []) = Inr r
        \<and> isValid r \<and> val r = Obj [] \<and> errors r = [])"
proof -
  let ?sv = "new_SchemaValidator (Some [(''name'', isString), (''age'', isNumber)])"
  let ?good = "[(''name'', Str ''Ann''), (''extra'', Str ''ignored''), (''age'', Num (Finite 30))]"
  let ?bad = "[(''age'', Str ''x''), (''extra'', Str ''ignored'')]"
  let ?h = example_host
  let ?sc = "new_SchemaValidator (Some [(''constructor'', \<lambda>v. isRequired example_host v Undefined)])"
  have r: "rules ?sv = [(''name'', isString), (''age'', isNumber)]"
    by (simp add: new_SchemaValidator_def)
  have e: "Object_entries (rules ?sv) = rules ?sv"
    by (simp add: r Object_entries_def key_name)
  have i: "inherited ?h = (\<lambda>v k. case v of Obj ps \<Rightarrow> Object_prototype k | _ \<Rightarrow> None)"
    by (simp add: example_host_def)
  have p: "Object_prototype ''name'' = None" "Object_prototype ''age'' = None"
    "Object_prototype ''constructor'' = Some (Builtin BuiltinFunction ''Object'')"
    by (simp_all add: Object_prototype_def)
  have g: "failure_records ?h (rules ?sv) ?good = []"
    by (simp add: r failure_records_def field_value_def isString_def isNumber_def ok_fields)
  have b: "failure_records ?h (rules ?sv) ?bad
        = [field_record ''name'' [Str ''Value must be a string''],
           field_record ''age'' [Str ''Value must be a number'']]"
    by (simp add: r failure_records_def field_value_def i p isString_def isNumber_def fail_fields)
  have hg: "\<forall>(k, vd) \<in> set (rules ?sv). \<exists>res. vd (field_value ?h ?good k) = Inr res"
    by (simp add: r field_value_def isString_def isNumber_def)
  have hb: "\<forall>(k, vd) \<in> set (rules ?sv). \<exists>res. vd (field_value ?h ?bad k) = Inr res"
    by (simp add: r field_value_def i p isString_def isNumber_def)
  have rc: "rules ?sc = [(''constructor'', \<lambda>v. isRequired example_host v Undefined)]"
    by (simp add: new_SchemaValidator_def)
  have ec: "Object_entries (rules ?sc) = rules ?sc"
    by (simp only: rc) (simp add: Object_entries_def key_name)
  have fc: "field_value ?h [] ''constructor'' = Builtin BuiltinFunction ''Object''"
    by (simp add: field_value_def i p)
  have gc: "failure_records ?h (rules ?sc) [] = []"
    by (simp only: rc) (simp add: failure_records_def fc isRequired_def ok_fields)
  have hc: "\<forall>(k, vd) \<in> set (rules ?sc). \<exists>res. vd (field_value ?h [] k) = Inr res"
    by (simp only: rc) (simp add: fc isRequired_def)
  have w1: "\<exists>r. validate ?h ?sv (Obj ?good) = Inr r \<and> isValid r \<and> val r = Obj ?good
              \<and> errors r = []"
    using validate_spec [where sv = ?sv and h = ?h and props = ?good and props' = ?good] hg
    by (simp add: e g)
  have w2: "\<exists>r. validate ?h ?sv (Obj ?bad) = Inr r \<and> \<not> isValid r
              \<and> errors r = [field_record ''name'' [Str ''Value must be a string''],
                            field_record ''age'' [Str ''Value must be a number'']]"
    using validate_spec [where sv = ?sv and h = ?h and props = ?bad and props' = ?bad] hb
    by (simp add: e b)
  have w3: "\<exists>r. validate ?h ?sc (Obj []) = Inr r \<and> isValid r \<and> val r = Obj []
              \<and> errors r = []"
    using validate_spec [where sv = ?sc and h = ?h and props = "[]" and props' = "[]"] hc
    by (simp add: ec gc)
  show ?thesis
    using w1 w2 w3 fc by blast
qed

text \<open>
  C5 as it is stated fails: the rule for the field \<open>1\<close>, created after the rule for
  the field \<open>b\<close>, is reported first.
\<close>

theorem validate_order_counterexample:
  "map fst (rules (new_SchemaValidator (Some [(''b'', isString), (''1'', isString)])))
     = [''b'', ''1'']
   \<and> validate example_host (new_SchemaValidator (Some [(''b'', isString), (''1'', isString)]))
       (Obj [])
     = Inr (fail (Arr [field_record ''1'' [Str ''Value must be a string''],
                       field_record ''b'' [Str ''Value must be a string'']]))
   \<and> validate example_host (new_SchemaValidator (Some [(''b'', isString), (''1'', isString)]))
       (Obj [])
     \<noteq> Inr (fail (Arr [field_record ''b'' [Str ''Value must be a string''],
                       field_record ''1'' [Str ''Value must be a string'']]))"
  by (simp add: validate_def new_SchemaValidator_def Object_entries_def key_name
        isString_def fail_def ValidationResult_def field_record_def lookup_inherited_def
        example_host_def Object_prototype_def)

section \<open>Where the validators raise\<close>

lemma validate_loop_returns:
  assumes "\<forall>(k, vd) \<in> set es. \<exists>x r. getProp h data k = Inr x \<and> vd x = Inr r"
  shows "\<exists>recs. validate_loop h es data errs = Inr recs"
  using assms
proof (induction es arbitrary: errs)
  case Nil
  then show ?case by simp
next
  case (Cons p es)
  obtain k vd where p: "p = (k, vd)" by (cases p)
  from Cons.prems p obtain x r where x: "getProp h data k = Inr x" and r: "vd x = Inr r"
    by auto
  from Cons.prems
  have "\<forall>(k, vd) \<in> set es. \<exists>x r. getProp h data k = Inr x \<and> vd x = Inr r" by simp
  from Cons.IH [OF this] show ?case
    using p x r by (simp del: getProp.simps)
qed

lemma validate_loop_raises:
  "data = Undefined \<or> data = Null \<Longrightarrow> es \<noteq> [] \<Longrightarrow> validate_loop h es data errs = Inl TypeError"
  by (cases es) auto

text \<open>
  C7, as the code has it. The validators of one value that need no conversion to a
  string return a Result for every argument. \<open>isPort\<close> returns a Result for every value
  that has a string form, \<open>isRequired\<close> for every value when \<open>fieldName\<close> has a string
  form and for every value that is present, and \<open>isOneOf\<close> when \<open>allowedValues\<close> is an
  array that includes the value or whose elements have string forms. \<open>validate\<close>, on
  rules whose properties are validator functions, returns a Result when, for every rule,
  the read of \<open>data[fieldName]\<close> does not raise and the validator returns a Result on
  the value read. Among the calls that raise: a conversion that raises leaves \<open>isPort\<close>
  and \<open>isRequired\<close>, \<open>isOneOf\<close> raises a TypeError when \<open>allowedValues\<close> is
  \<open>undefined\<close> or \<open>null\<close>, and \<open>validate\<close> raises a TypeError when \<open>data\<close> is
  \<open>undefined\<close> or \<open>null\<close> and there is a rule.
\<close>

theorem validators_raise_only_on_bad_arguments:
  "(\<exists>r. isUUID t v = Inr r) \<and> (\<exists>r. isEmail t v = Inr r) \<and> (\<exists>r. isString v = Inr r)
   \<and> (\<exists>r. isNumber v = Inr r) \<and> (\<exists>r. isBoolean v = Inr r) \<and> (\<exists>r. isArray v = Inr r)
   \<and> (\<exists>r. isObject v = Inr r) \<and> (\<exists>r. isURL t v = Inr r) \<and> (\<exists>r. isIdentifier t v = Inr r)
   \<and> (ToString h v = Inr s \<longrightarrow> (\<exists>r. isPort h t v = Inr r))
   \<and> (ToString h v = Inl e \<longrightarrow> isPort h t v = Inl e)
   \<and> (ToString h (if fieldName = Undefined then Str ''Value'' else fieldName) = Inr s \<longrightarrow>
        (\<exists>r. isRequired h v fieldName = Inr r))
   \<and> (\<not> (v = Null \<or> v = Undefined \<or> v = Str []) \<longrightarrow> (\<exists>r. isRequired h v fieldName = Inr r))
   \<and> ((v = Null \<or> v = Undefined \<or> v = Str []) \<and> ToString h fieldName = Inl e
        \<and> fieldName \<noteq> Undefined \<longrightarrow> isRequired h v fieldName = Inl e)
   \<and> (Array_includes h xs v \<or> Array_join h xs '', '' = Inr s \<longrightarrow>
        (\<exists>r. isOneOf h v (Arr xs) = Inr r))
   \<and> isOneOf h v Undefined = Inl TypeError \<and> isOneOf h v Null = Inl TypeError
   \<and> ((\<forall>(k, vd) \<in> set (rules sv). \<exists>x r. getProp h data k = Inr x \<and> vd x = Inr r) \<longrightarrow>
        (\<exists>r. validate h sv data = Inr r))
   \<and> ((data = Undefined \<or> data = Null) \<and> rules sv \<noteq> [] \<longrightarrow> validate h sv data = Inl TypeError)"
proof (intro conjI impI)
  assume a: "\<forall>(k, vd) \<in> set (rules sv). \<exists>x r. getProp h data k = Inr x \<and> vd x = Inr r"
  then have "\<forall>(k, vd) \<in> set (Object_entries (rules sv)).
               \<exists>x r. getProp h data k = Inr x \<and> vd x = Inr r"
    by (simp add: set_Object_entries)
  then obtain recs where "validate_loop h (Object_entries (rules sv)) data [] = Inr recs"
    using validate_loop_returns by blast
  then show "\<exists>r. validate h sv data = Inr r" by (simp add: validate_def)
next
  assume a: "(data = Undefined \<or> data = Null) \<and> rules sv \<noteq> []"
  then have "Object_entries (rules sv) \<noteq> []"
    using set_Object_entries [of "rules sv"] by (metis set_empty)
  with a have "validate_loop h (Object_entries (rules sv)) data [] = Inl TypeError"
    using validate_loop_raises by blast
  then show "validate h sv data = Inl TypeError" by (simp add: validate_def)
next
  show "\<exists>r. isUUID t v = Inr r" by (cases v) (simp_all add: isUUID_def)
  show "\<exists>r. isEmail t v = Inr r" by (cases v) (simp_all add: isEmail_def)
  show "\<exists>r. isURL t v = Inr r" by (cases v) (simp_all add: isURL_def)
  show "\<exists>r. isIdentifier t v = Inr r" by (cases v) (simp_all add: isIdentifier_def)
  show "\<exists>r. isNumber v = Inr r" by (cases v) (simp_all add: isNumber_def)
  show "\<exists>r. isOneOf h v (Arr xs) = Inr r"
    if "Array_includes h xs v \<or> Array_join h xs '', '' = Inr s"
    using that by (auto simp add: isOneOf_def)
qed (auto simp add: isRequired_def isString_def isBoolean_def isArray_def isObject_def
       isPort_def isOneOf_def Let_def)

theorem validators_raise_only_on_bad_arguments_witness:
  "(\<exists>r. validate example_host (new_SchemaValidator (Some [(''name'', isString)])) (Str ''text'')
         = Inr r)
   \<and> validate example_host (new_SchemaValidator (Some [(''name'', isString)])) Null
       = Inl TypeError
   \<and> (\<exists>r. isPort example_host PORT_spec (Str ''80'') = Inr r)
   \<and> isPort example_host PORT_spec (Obj [(''toString'', Num (Finite 1))]) = Inl TypeError
   \<and> (\<exists>r. isRequired example_host Null (Str ''email'') = Inr r)
   \<and> isRequired example_host Null (Obj [(''toString'', Null)]) = Inl TypeError
   \<and> (\<exists>r. isOneOf example_host (Str ''c'') (Arr [Str ''a'', Str ''b'']) = Inr r)"
proof -
  let ?sv = "new_SchemaValidator (Some [(''name'', isString)])"
  let ?h = example_host
  have r: "rules ?sv = [(''name'', isString)]" by (simp add: new_SchemaValidator_def)
  have t: "\<forall>(k, vd) \<in> set (rules ?sv). \<exists>x r. getProp ?h (Str ''text'') k = Inr x \<and> vd x = Inr r"
    by (simp add: r isString_def)
  have j: "Array_join ?h [Str ''a'', Str ''b''] '', '' = Inr ''a, b''" by simp
  show ?thesis
    using validators_raise_only_on_bad_arguments
             [where h = ?h and sv = ?sv and data = "Str ''text''"] t
          validators_raise_only_on_bad_arguments [where h = ?h and sv = ?sv and data = Null] r
          validators_raise_only_on_bad_arguments
             [where h = ?h and v = "Str ''80''" and s = "''80''" and t = PORT_spec]
          validators_raise_only_on_bad_arguments
             [where h = ?h and v = "Obj [(''toString'', Num (Finite 1))]" and e = TypeError
                and t = PORT_spec]
          validators_raise_only_on_bad_arguments
             [where h = ?h and v = Null and s = "''email''" and fieldName = "Str ''email''"]
          validators_raise_only_on_bad_arguments
             [where h = ?h and v = Null and e = TypeError
                and fieldName = "Obj [(''toString'', Null)]"]
          validators_raise_only_on_bad_arguments
             [where h = ?h and v = "Str ''c''" and s = "''a, b''"
                and xs = "[Str ''a'', Str ''b'']"] j
    by simp
qed

text \<open>
  C7 as it is stated fails: \<open>isOneOf('a')\<close> without the allowed values,
  \<open>validate(null)\<close> under a rule, and \<open>isPort\<close> on an object whose own \<open>toString\<close>
  is not a function raise a TypeError.
\<close>

theorem validators_raise_counterexample:
  "isOneOf example_host (Str ''a'') Undefined = Inl TypeError
   \<and> validate example_host (new_SchemaValidator (Some [(''name'', isString)])) Null = Inl TypeError
   \<and> isPort example_host PORT_spec (Obj [(''toString'', Num (Finite 1))]) = Inl TypeError"
  by (simp add: isOneOf_def validate_def new_SchemaValidator_def Object_entries_def
        array_index_def is_digit_def isPort_def)

end
